theory Spec2Isabelle
  imports Main
begin

section \<open>Python text: \<open>str.strip\<close>, \<open>int\<close> and \<open>str\<close>\<close>

text \<open>
  A Python \<open>str\<close> is modelled as a \<open>string\<close> whose characters are the code points
  below 256. In that range the characters \<open>str.strip()\<close> removes are the code points
  9-13, 28-32, 133 and 160, and the only decimal digits are \<open>0\<close>-\<open>9\<close>. Python integers
  are unbounded, hence \<open>int\<close>; the limit on the number of digits that recent interpreters
  put on \<open>int()\<close> and \<open>str()\<close> (4300 by default) is not modelled.
\<close>

definition py_isspace :: "char \<Rightarrow> bool" where
  "py_isspace c = (of_char c \<in> {9, 10, 11, 12, 13, 28, 29, 30, 31, 32, 133, 160 :: nat})"

text \<open>\<open>s.strip()\<close>: leading and trailing whitespace removed.\<close>

definition py_strip :: "string \<Rightarrow> string" where
  "py_strip s = rev (dropWhile py_isspace (rev (dropWhile py_isspace s)))"

definition is_digit :: "char \<Rightarrow> bool" where
  "is_digit c = (48 \<le> (of_char c :: nat) \<and> (of_char c :: nat) \<le> 57)"

definition digit_val :: "char \<Rightarrow> nat" where
  "digit_val c = of_char c - 48"

definition digit_char :: "nat \<Rightarrow> char" where
  "digit_char d = char_of (48 + d)"

text \<open>
  The digits of an \<open>int()\<close> literal after the first one: decimal digits, where a single
  underscore may stand between two digits (\<open>int("1_000") == 1000\<close>), and nothing else.
\<close>

fun parse_digits :: "nat \<Rightarrow> string \<Rightarrow> nat option" where
  "parse_digits acc [] = Some acc"
| "parse_digits acc [c] = (if is_digit c then Some (10 * acc + digit_val c) else None)"
| "parse_digits acc (c # d # cs) =
     (if is_digit c then parse_digits (10 * acc + digit_val c) (d # cs)
      else if c = CHR ''_'' \<and> is_digit d then parse_digits (10 * acc + digit_val d) cs
      else None)"

definition parse_nat :: "string \<Rightarrow> nat option" where
  "parse_nat s =
     (case s of
        [] \<Rightarrow> None
      | c # cs \<Rightarrow> if is_digit c then parse_digits (digit_val c) cs else None)"

text \<open>
  The whitespace \<open>int()\<close> itself skips around the literal: the ASCII whitespace 9-13 and
  32, and the non-ASCII spaces (133 and 160 below 256). The separators 28-31 are removed
  by \<open>str.strip()\<close> but are not skipped by \<open>int()\<close>.
\<close>

definition int_isspace :: "char \<Rightarrow> bool" where
  "int_isspace c = (of_char c \<in> {9, 10, 11, 12, 13, 32, 133, 160 :: nat})"

datatype exn =
    FileNotFoundError
  | ProcessLookupError
  | PermissionError
  | OverflowError
  | ValueError
  | UnicodeDecodeError
  | SystemExit

text \<open>
  \<open>int(s)\<close> for a string: optional whitespace, an optional sign, the digits, optional
  whitespace. Anything else raises \<open>ValueError\<close>.
\<close>

definition py_int :: "string \<Rightarrow> exn + int" where
  "py_int s =
     (case rev (dropWhile int_isspace (rev (dropWhile int_isspace s))) of
        [] \<Rightarrow> Inl ValueError
      | c # cs \<Rightarrow>
          if c = CHR ''-'' then
            (case parse_nat cs of None \<Rightarrow> Inl ValueError | Some n \<Rightarrow> Inr (- int n))
          else if c = CHR ''+'' then
            (case parse_nat cs of None \<Rightarrow> Inl ValueError | Some n \<Rightarrow> Inr (int n))
          else
            (case parse_nat (c # cs) of None \<Rightarrow> Inl ValueError | Some n \<Rightarrow> Inr (int n)))"

text \<open>\<open>str(n)\<close> for an integer: its decimal digits, with a minus sign when negative.\<close>

fun nat_digits :: "nat \<Rightarrow> string" where
  "nat_digits n =
     (if n < 10 then [digit_char n] else nat_digits (n div 10) @ [digit_char (n mod 10)])"

declare nat_digits.simps [simp del]

definition py_str :: "int \<Rightarrow> string" where
  "py_str i = (if i < 0 then CHR ''-'' # nat_digits (nat (- i)) else nat_digits (nat i))"

section \<open>The world a process runs in\<close>

text \<open>
  The program reads and writes one file, sends signals, forks and logs. The state it acts
  on is a record:
  \<^item> the files, a flat map from absolute path to the bytes stored (directories, permissions
    and links are not modelled, so opening a path for reading fails only when there is no
    file, and opening for writing always succeeds);
  \<^item> the working directory;
  \<^item> the encoding of the locale, as far as it goes beyond ASCII;
  \<^item> what the operating system answers to the successive \<open>os.kill\<close> and \<open>os.fork\<close> calls of
    the process that is followed, and the identifiers it gives to the processes created;
  \<^item> what the other process of a fork still has to do, and when it gets to do it;
  \<^item> the trace of what has been done so far.
\<close>

datatype level = DEBUG | INFO | WARNING | ERROR

datatype event =
    Log level string
  | Kill int int
  | Sleep nat
  | Truncate string
  | Write string string
  | Remove string
  | Forked
  | Chdir string
  | Setsid
  | Umask nat
  | Redirect
  | AppInvoked

text \<open>
  A step of the other process: it opens a file for writing, logs a line, or writes a text
  to the file it has opened. The paths are absolute.
\<close>

datatype other = OtherOpen string | OtherLog level string | OtherWrite string string

record world =
  files :: "string \<rightharpoonup> string"
  cwd :: string
  codec :: "string \<Rightarrow> string option"
  kill_reply :: "nat \<Rightarrow> int \<Rightarrow> int \<Rightarrow> exn option"
  kills :: nat
  fork_reply :: "nat \<Rightarrow> nat"
  forked :: "nat \<Rightarrow> nat"
  forks :: nat
  pending :: "other list"
  schedule :: "nat list"
  events :: "event list"

text \<open>
  \<open>kill_reply w n pid sig\<close> is the outcome of the \<open>n\<close>-th call of \<open>os.kill\<close> (counted from
  0) when it is \<open>os.kill(pid, sig)\<close>: \<open>None\<close> when the signal is delivered, the exception
  otherwise. \<open>fork_reply w n\<close> is what the \<open>n\<close>-th \<open>os.fork()\<close> returns in the process that
  is followed: 0 in the child, the child's process identifier in the parent.
  \<open>forked w n\<close> is the identifier of the process that the \<open>n\<close>-th \<open>os.fork()\<close> creates: the
  parent receives it as the result of the call, and it is the child's own identifier.

  \<open>codec w b\<close> is the text that the encoding of the locale makes of the bytes \<open>b\<close> when
  they are not all ASCII, and \<open>None\<close> when it rejects them.

  \<open>pending w\<close> are the steps that the other process of the last fork has ahead of it, and
  \<open>schedule w\<close> says how many of them it takes at each of the points where the process
  that is followed lets it run; when the schedule is used up it takes none.
\<close>

definition SIGKILL :: int where
  "SIGKILL = 9"

text \<open>A relative path is resolved against the working directory.\<close>

definition abspath :: "string \<Rightarrow> string \<Rightarrow> string" where
  "abspath d p =
     (if take 1 p = ''/'' then p
      else if d = ''/'' then ''/'' @ p
      else d @ ''/'' @ p)"

definition logging :: "level \<Rightarrow> string \<Rightarrow> world \<Rightarrow> world" where
  "logging l m w = w\<lparr>events := events w @ [Log l m]\<rparr>"

text \<open>
  Reading in text mode decodes the bytes with the encoding of the locale. Every encoding
  a locale can name gives the bytes below 128 their ASCII meaning; what it makes of other
  bytes, and whether it accepts them, is \<open>codec\<close>. Undecodable bytes raise
  \<open>UnicodeDecodeError\<close>.
\<close>

definition is_ascii :: "char \<Rightarrow> bool" where
  "is_ascii c = ((of_char c :: nat) < 128)"

definition decode :: "world \<Rightarrow> string \<Rightarrow> string option" where
  "decode w b = (if list_all is_ascii b then Some b else codec w b)"

text \<open>
  Text mode then translates the line endings: a carriage return followed by a line feed,
  and a carriage return alone, are read as one line feed.
\<close>

fun universal_newlines :: "string \<Rightarrow> string" where
  "universal_newlines [] = []"
| "universal_newlines [c] = (if c = CHR 0x0D then [CHR 0x0A] else [c])"
| "universal_newlines (c # d # cs) =
     (if c = CHR 0x0D \<and> d = CHR 0x0A then CHR 0x0A # universal_newlines cs
      else if c = CHR 0x0D then CHR 0x0A # universal_newlines (d # cs)
      else c # universal_newlines (d # cs))"

text \<open>
  \<open>with open(p, "r") as f: f.read()\<close>: \<open>FileNotFoundError\<close> when there is no file,
  \<open>UnicodeDecodeError\<close> when its bytes do not decode, the text otherwise.
\<close>

definition read_file :: "string \<Rightarrow> world \<Rightarrow> exn + string" where
  "read_file p w =
     (case files w (abspath (cwd w) p) of
        None \<Rightarrow> Inl FileNotFoundError
      | Some b \<Rightarrow>
          (case decode w b of
             None \<Rightarrow> Inl UnicodeDecodeError
           | Some t \<Rightarrow> Inr (universal_newlines t)))"

text \<open>
  \<open>open(p, "w")\<close> creates the file or empties it; \<open>f.write(s)\<close> then stores the text.
  The only text the program writes is \<open>str(pid)\<close>: a sign and digits, which every
  encoding stores as the bytes of the same numbers.
\<close>

definition open_w :: "string \<Rightarrow> world \<Rightarrow> world" where
  "open_w p w =
     w\<lparr>files := (files w)(abspath (cwd w) p \<mapsto> []),
       events := events w @ [Truncate (abspath (cwd w) p)]\<rparr>"

definition write_file :: "string \<Rightarrow> string \<Rightarrow> world \<Rightarrow> world" where
  "write_file p s w =
     w\<lparr>files := (files w)(abspath (cwd w) p \<mapsto> s),
       events := events w @ [Write (abspath (cwd w) p) s]\<rparr>"

text \<open>\<open>os.remove(p)\<close> raises \<open>FileNotFoundError\<close> when there is no such file.\<close>

definition os_remove :: "string \<Rightarrow> world \<Rightarrow> exn option \<times> world" where
  "os_remove p w =
     (case files w (abspath (cwd w) p) of
        None \<Rightarrow> (Some FileNotFoundError, w)
      | Some c \<Rightarrow>
          (None, w\<lparr>files := (files w)(abspath (cwd w) p := None),
                    events := events w @ [Remove (abspath (cwd w) p)]\<rparr>))"

definition os_kill :: "int \<Rightarrow> int \<Rightarrow> world \<Rightarrow> exn option \<times> world" where
  "os_kill pid sig w =
     (kill_reply w (kills w) pid sig,
      w\<lparr>kills := Suc (kills w), events := events w @ [Kill pid sig]\<rparr>)"

definition time_sleep :: "nat \<Rightarrow> world \<Rightarrow> world" where
  "time_sleep n w = w\<lparr>events := events w @ [Sleep n]\<rparr>"

definition os_fork :: "world \<Rightarrow> int \<times> world" where
  "os_fork w =
     (int (fork_reply w (forks w)),
      w\<lparr>forks := Suc (forks w), events := events w @ [Forked]\<rparr>)"

definition os_chdir :: "string \<Rightarrow> world \<Rightarrow> world" where
  "os_chdir d w = w\<lparr>cwd := d, events := events w @ [Chdir d]\<rparr>"

definition os_setsid :: "world \<Rightarrow> world" where
  "os_setsid w = w\<lparr>events := events w @ [Setsid]\<rparr>"

definition os_umask :: "nat \<Rightarrow> world \<Rightarrow> world" where
  "os_umask m w = w\<lparr>events := events w @ [Umask m]\<rparr>"

text \<open>\<open>sys.stdout = open('/dev/null', 'w'); sys.stderr = open('/dev/null', 'w')\<close>\<close>

definition redirect_output :: "world \<Rightarrow> world" where
  "redirect_output w = w\<lparr>events := events w @ [Redirect]\<rparr>"

text \<open>\<open>sys.exit()\<close> raises \<open>SystemExit\<close>, which nothing in the program catches.\<close>

definition sys_exit :: "world \<Rightarrow> (exn + 'a) \<times> world" where
  "sys_exit w = (Inl SystemExit, w)"

text \<open>
  The other process takes a step. A text written to a file that has been removed since
  it was opened does not show at the path.
\<close>

fun perform :: "other \<Rightarrow> world \<Rightarrow> world" where
  "perform (OtherOpen p) w =
     w\<lparr>files := (files w)(p \<mapsto> []), events := events w @ [Truncate p]\<rparr>"
| "perform (OtherLog l m) w = logging l m w"
| "perform (OtherWrite p s) w =
     (if files w p = None then w\<lparr>events := events w @ [Write p s]\<rparr>
      else w\<lparr>files := (files w)(p \<mapsto> s), events := events w @ [Write p s]\<rparr>)"

fun take_steps :: "nat \<Rightarrow> world \<Rightarrow> world" where
  "take_steps 0 w = w"
| "take_steps (Suc n) w =
     (case pending w of
        [] \<Rightarrow> w
      | a # as \<Rightarrow> take_steps n (perform a (w\<lparr>pending := as\<rparr>)))"

text \<open>
  A point between two calls of the process that is followed: the other process takes as
  many of its pending steps as the schedule gives it here.
\<close>

definition others :: "world \<Rightarrow> world" where
  "others w =
     (case schedule w of
        [] \<Rightarrow> w
      | n # ns \<Rightarrow> take_steps n (w\<lparr>schedule := ns\<rparr>))"

text \<open>What a run has added to the trace.\<close>

definition new_events :: "world \<Rightarrow> world \<Rightarrow> event list" where
  "new_events w w' = drop (length (events w)) (events w')"

section \<open>The PID file\<close>

text \<open>The log lines that carry a value (the f-strings of the source).\<close>

definition msg_writing :: "int \<Rightarrow> string \<Rightarrow> string" where
  "msg_writing pid pid_file = ''Writing PID '' @ py_str pid @ '' to file '' @ pid_file"

definition msg_read :: "string \<Rightarrow> string \<Rightarrow> string" where
  "msg_read pid_file pid = ''Read PID file '' @ pid_file @ ''. Contents:'' @ [CHR 0x0A] @ pid"

definition msg_stale :: "int \<Rightarrow> string" where
  "msg_stale pid = ''Process '' @ py_str pid @ '' does not exist. Removing old PID file.''"

definition msg_unable :: "int \<Rightarrow> string" where
  "msg_unable pid = ''Unable to kill process '' @ py_str pid"

definition msg_terminated :: "int \<Rightarrow> string" where
  "msg_terminated pid = ''Process '' @ py_str pid @ '' is now terminated. Removing PID file.''"

definition msg_location :: "string \<Rightarrow> string" where
  "msg_location pid_file = ''PID file location: '' @ pid_file"

definition msg_exists :: "string \<Rightarrow> string" where
  "msg_exists pid = ''Process already exists with PID: '' @ pid @ ''... Exiting''"

text \<open>
  \<^verbatim>\<open>with open(pid_file, "w") as f:\<close> \<^verbatim>\<open>logging.debug(...)\<close>; \<^verbatim>\<open>f.write(str(pid))\<close>
  (lines 111-113).
\<close>

definition create_pid_file :: "string \<Rightarrow> int \<Rightarrow> world \<Rightarrow> world" where
  "create_pid_file pid_file pid w =
     write_file pid_file (py_str pid)
       (logging DEBUG (msg_writing pid pid_file) (open_w pid_file w))"

text \<open>
  Lines 121-137: a missing file is logged and answered with \<open>-1\<close>; the content is
  stripped and given to \<open>int()\<close>; a \<open>ValueError\<close> is logged and answered with \<open>-1\<close> too;
  otherwise the integer is returned.
\<close>

definition get_pid :: "string \<Rightarrow> world \<Rightarrow> (exn + int) \<times> world" where
  "get_pid pid_file w =
     (case read_file pid_file w of
        Inl e \<Rightarrow>
          if e = FileNotFoundError then
            (Inr (- 1),
             logging ERROR ''The process is not running or the PID file has been deleted'' w)
          else (Inl e, w)
      | Inr pid \<Rightarrow>
          (let w1 = logging DEBUG (msg_read pid_file pid) w
           in case py_int (py_strip pid) of
                Inl e \<Rightarrow>
                  if e = ValueError then (Inr (- 1), logging ERROR ''PID file is invalid'' w1)
                  else (Inl e, w1)
              | Inr n \<Rightarrow> (Inr n, w1)))"

section \<open>Stopping the daemon\<close>

text \<open>
  \<open>for _ in range(n): os.kill(pid, signal.SIGKILL); time.sleep(2)\<close>: the result is the
  exception that ended the loop, or \<open>None\<close> when all \<open>n\<close> rounds were completed.
\<close>

fun kill_loop :: "nat \<Rightarrow> int \<Rightarrow> world \<Rightarrow> exn option \<times> world" where
  "kill_loop 0 pid w = (None, w)"
| "kill_loop (Suc n) pid w =
     (case os_kill pid SIGKILL w of
        (Some e, w1) \<Rightarrow> (Some e, w1)
      | (None, w1) \<Rightarrow> kill_loop n pid (time_sleep 2 w1))"

text \<open>\<^verbatim>\<open>os.remove(pid_file)\<close> followed by \<^verbatim>\<open>return 0\<close>, as \<open>start\<close> and \<open>stop\<close> end.\<close>

definition remove_and_return :: "string \<Rightarrow> world \<Rightarrow> (exn + int) \<times> world" where
  "remove_and_return pid_file w =
     (case os_remove pid_file w of
        (Some e, w1) \<Rightarrow> (Inl e, w1)
      | (None, w1) \<Rightarrow> (Inr 0, w1))"

text \<open>
  Lines 47-69: \<open>-1\<close> from \<open>get_pid\<close> gives 1. The probe \<^verbatim>\<open>os.kill(pid, 0)\<close> catches
  \<open>ProcessLookupError\<close> only: warning, removal, 0. The loop runs inside a second \<open>try\<close>
  that catches \<open>ProcessLookupError\<close> only: info, removal, 0; its \<open>else\<close> branch, reached
  when the ten rounds are over, logs the error and returns 1. Any other exception leaves
  \<open>stop\<close>.
\<close>

definition stop :: "string \<Rightarrow> world \<Rightarrow> (exn + int) \<times> world" where
  "stop pid_file w =
     (case get_pid pid_file w of
        (Inl e, w1) \<Rightarrow> (Inl e, w1)
      | (Inr pid, w1) \<Rightarrow>
          if pid = - 1 then (Inr 1, w1)
          else
            (case os_kill pid 0 w1 of
               (Some e, w2) \<Rightarrow>
                 if e = ProcessLookupError then
                   remove_and_return pid_file (logging WARNING (msg_stale pid) w2)
                 else (Inl e, w2)
             | (None, w2) \<Rightarrow>
                 (case kill_loop 10 pid w2 of
                    (None, w3) \<Rightarrow>
                      (Inr 1, logging ERROR (msg_unable pid) w3)
                  | (Some e, w3) \<Rightarrow>
                      if e = ProcessLookupError then
                        remove_and_return pid_file (logging INFO (msg_terminated pid) w3)
                      else (Inl e, w3))))"

section \<open>Starting the daemon\<close>

text \<open>
  \<open>fork\<close> is run by three processes. The model follows one of them: the values that
  \<open>os.fork()\<close> returns to it select its branch.
\<close>

text \<open>
  Lines 78-102: \<^verbatim>\<open>pid = os.fork()\<close>, exit when \<^verbatim>\<open>pid > 0\<close>; \<^verbatim>\<open>os.chdir("/")\<close>,
  \<^verbatim>\<open>os.setsid()\<close>, \<^verbatim>\<open>os.umask(0)\<close>; \<^verbatim>\<open>pid = os.fork()\<close> again, and when \<^verbatim>\<open>pid > 0\<close>
  \<^verbatim>\<open>create_pid_file(pid_file, pid)\<close> and exit; otherwise the output is redirected and
  \<^verbatim>\<open>pid\<close> is returned.
\<close>

definition fork :: "string \<Rightarrow> world \<Rightarrow> (exn + int) \<times> world" where
  "fork pid_file w =
     (case os_fork w of
        (pid, w1) \<Rightarrow>
          if pid > 0 then sys_exit w1
          else
            (case os_fork (os_umask 0 (os_setsid (os_chdir ''/'' w1))) of
               (pid', w2) \<Rightarrow>
                 if pid' > 0 then sys_exit (create_pid_file pid_file pid' w2)
                 else
                   (Inr pid',
                    redirect_output
                      (logging DEBUG ''Redirecting stdout and stderr to /dev/null'' w2))))"

text \<open>
  When \<open>fork\<close> returns, in the grandchild, the first child is still there: the same
  \<open>os.fork()\<close> has returned the grandchild's identifier to it, and it has the three calls
  of \<open>create_pid_file\<close> ahead of it, in the directory \<open>/\<close>, before it exits. (The steps it
  takes while the grandchild is still inside \<open>fork\<close>, where the grandchild only logs and
  redirects its output, are taken at the first point after \<open>fork\<close> has returned.)
\<close>

definition first_child_pending :: "string \<Rightarrow> int \<Rightarrow> other list" where
  "first_child_pending pid_file pid =
     [OtherOpen (abspath ''/'' pid_file),
      OtherLog DEBUG (msg_writing pid pid_file),
      OtherWrite (abspath ''/'' pid_file) (py_str pid)]"

definition beside_first_child :: "string \<Rightarrow> world \<Rightarrow> world" where
  "beside_first_child pid_file w =
     w\<lparr>pending := first_child_pending pid_file (int (forked w (forks w - 1)))\<rparr>"

text \<open>
  The payload is any function of the caller's: it may change the world and may raise.
  \<open>start\<close> records that it called it. The payload is one step, and it has no hand in
  what the first child does or when.
\<close>

definition run_app :: "(world \<Rightarrow> exn option \<times> world) \<Rightarrow> world \<Rightarrow> exn option \<times> world" where
  "run_app app w =
     (case app (w\<lparr>events := events w @ [AppInvoked]\<rparr>) of
        (r, w1) \<Rightarrow> (r, w1\<lparr>pending := pending w, schedule := schedule w\<rparr>))"

text \<open>
  Lines 17-38: two log lines; if the PID file can be opened and read, a third and
  \<^verbatim>\<open>return 0\<close>; on \<open>FileNotFoundError\<close> \<^verbatim>\<open>fork(pid_file)\<close>, the payload,
  \<^verbatim>\<open>os.remove(pid_file)\<close> and \<^verbatim>\<open>return 0\<close>. In the process in which \<open>fork\<close> returns,
  the first child runs beside the four calls that follow.
\<close>

definition start ::
  "string \<Rightarrow> (world \<Rightarrow> exn option \<times> world) \<Rightarrow> world \<Rightarrow> (exn + int) \<times> world" where
  "start pid_file app w =
     (let w1 = logging DEBUG (msg_location pid_file) (logging INFO ''Starting daemon'' w)
      in case read_file pid_file w1 of
           Inr pid \<Rightarrow>
             (Inr 0, logging INFO (msg_exists pid) w1)
         | Inl e \<Rightarrow>
             if e \<noteq> FileNotFoundError then (Inl e, w1)
             else
               (case fork pid_file (logging DEBUG ''Entering fork function...'' w1) of
                  (Inl e', w2) \<Rightarrow> (Inl e', w2)
                | (Inr _, w2) \<Rightarrow>
                    (case run_app app
                            (others (logging DEBUG ''Running app function...''
                               (others (beside_first_child pid_file w2)))) of
                       (Some e', w3) \<Rightarrow> (Inl e', w3)
                     | (None, w3) \<Rightarrow>
                         remove_and_return pid_file
                           (others (logging INFO ''Function completed. Deleting pidfile''
                              (others w3))))))"

section \<open>What \<open>get_pid\<close> reports\<close>

text \<open>
  \<open>get_pid\<close> returns \<open>-1\<close> both when there is no file and when its content is not an
  integer; the two cases differ in the error it logs.
\<close>

definition reports_not_found :: "string \<Rightarrow> world \<Rightarrow> bool" where
  "reports_not_found pid_file w =
     (fst (get_pid pid_file w) = Inr (- 1) \<and>
      Log ERROR ''The process is not running or the PID file has been deleted''
        \<in> set (new_events w (snd (get_pid pid_file w))))"

definition reports_invalid :: "string \<Rightarrow> world \<Rightarrow> bool" where
  "reports_invalid pid_file w =
     (fst (get_pid pid_file w) = Inr (- 1) \<and>
      Log ERROR ''PID file is invalid'' \<in> set (new_events w (snd (get_pid pid_file w))))"

text \<open>The trimmed content parses as a positive integer.\<close>

definition parses_positive :: "string \<Rightarrow> bool" where
  "parses_positive c = (case py_int (py_strip c) of Inl e \<Rightarrow> False | Inr n \<Rightarrow> 0 < n)"

section \<open>Reading a trace\<close>

text \<open>In a trace, the file at \<open>p\<close> is written before the payload is called.\<close>

definition is_write_to :: "string \<Rightarrow> event \<Rightarrow> bool" where
  "is_write_to p e = (case e of Write q s \<Rightarrow> q = p | _ \<Rightarrow> False)"

definition written_before_payload :: "string \<Rightarrow> event list \<Rightarrow> bool" where
  "written_before_payload p es =
     list_ex (is_write_to p) (takeWhile (\<lambda>e. e \<noteq> AppInvoked) es)"

section \<open>Example worlds\<close>

text \<open>
  The locale's encoding accepts ASCII only; the first \<open>os.fork()\<close> creates process 4242,
  the second 4243; no other process has anything pending.
\<close>

definition example_world ::
  "(string \<times> string) list \<Rightarrow> (nat \<Rightarrow> exn option) \<Rightarrow> (nat \<Rightarrow> nat) \<Rightarrow> world" where
  "example_world fs kill_replies fork_replies =
     \<lparr>files = map_of fs, cwd = ''/home/daemon'', codec = (\<lambda>b. None),
      kill_reply = (\<lambda>n pid sig. kill_replies n), kills = 0,
      fork_reply = fork_replies, forked = (\<lambda>n. 4242 + n), forks = 0,
      pending = [], schedule = [], events = []\<rparr>"

text \<open>A payload that returns at once.\<close>

definition idle_app :: "world \<Rightarrow> exn option \<times> world" where
  "idle_app w = (None, w)"

definition pid_path :: string where
  "pid_path = ''/tmp/pydaemon.pid''"

text \<open>No PID file.\<close>

definition world_fresh :: world where
  "world_fresh = example_world [] (\<lambda>n. None) (\<lambda>n. 0)"

text \<open>A PID file that holds no number.\<close>

definition world_garbage :: world where
  "world_garbage = example_world [(pid_path, ''not a pid'')] (\<lambda>n. None) (\<lambda>n. 0)"

text \<open>A PID file whose bytes are no text.\<close>

definition world_binary :: world where
  "world_binary = example_world [(pid_path, [CHR 0xFF, CHR 0xFE])] (\<lambda>n. None) (\<lambda>n. 0)"

text \<open>A PID file that names a process that is gone.\<close>

definition world_stale :: world where
  "world_stale =
     example_world [(pid_path, '' 4242'' @ [CHR 0x0D, CHR 0x0A])]
       (\<lambda>n. Some ProcessLookupError) (\<lambda>n. 0)"

text \<open>A live process that is gone at the third \<open>SIGKILL\<close>.\<close>

definition world_dying :: world where
  "world_dying =
     example_world [(pid_path, ''4242'')]
       (\<lambda>n. if n < 3 then None else Some ProcessLookupError) (\<lambda>n. 0)"

text \<open>A live process that every signal reaches and none ends.\<close>

definition world_unkillable :: world where
  "world_unkillable = example_world [(pid_path, ''4242'')] (\<lambda>n. None) (\<lambda>n. 0)"

text \<open>A process of another user: no signal may be sent to it.\<close>

definition world_denied :: world where
  "world_denied = example_world [(pid_path, ''4242'')] (\<lambda>n. Some PermissionError) (\<lambda>n. 0)"

text \<open>PID files that hold zero, a negative number, and the error value itself.\<close>

definition world_zero :: world where
  "world_zero = example_world [(pid_path, ''0'')] (\<lambda>n. None) (\<lambda>n. 0)"

definition world_negative :: world where
  "world_negative = example_world [(pid_path, ''-7'')] (\<lambda>n. None) (\<lambda>n. 0)"

definition world_minus_one :: world where
  "world_minus_one = example_world [(pid_path, ''-1'')] (\<lambda>n. None) (\<lambda>n. 0)"

text \<open>A PID file with whitespace and a Windows line ending around the number.\<close>

definition world_padded :: world where
  "world_padded =
     example_world [(pid_path, [CHR '' '', CHR 0x09] @ ''12345'' @ [CHR 0x0D, CHR 0x0A])]
       (\<lambda>n. None) (\<lambda>n. 0)"

text \<open>
  The first child and the grandchild of one start: the second \<open>os.fork()\<close> returns 4243,
  the grandchild's identifier, to the first child, and 0 to the grandchild.
\<close>

definition world_first_child :: world where
  "world_first_child = example_world [] (\<lambda>n. None) (\<lambda>n. if n = 1 then 4243 else 0)"

definition world_grandchild :: world where
  "world_grandchild = example_world [] (\<lambda>n. None) (\<lambda>n. 0)"

text \<open>The original process: the first \<open>os.fork()\<close> returns the first child's identifier.\<close>

definition world_parent :: world where
  "world_parent = example_world [] (\<lambda>n. None) (\<lambda>n. 4242)"

text \<open>
  The grandchild when the first child writes the PID file at once, and when it writes
  it only after the grandchild has called the payload. In \<open>world_grandchild\<close> the first
  child takes no step while the grandchild runs.
\<close>

definition world_daemon :: world where
  "world_daemon = world_grandchild\<lparr>schedule := [3]\<rparr>"


section \<open>Integers as text\<close>

lemma is_digit_digit_char: "d < 10 \<Longrightarrow> is_digit (digit_char d)"
  by (simp add: is_digit_def digit_char_def)

lemma digit_val_digit_char: "d < 10 \<Longrightarrow> digit_val (digit_char d) = d"
  by (simp add: digit_val_def digit_char_def)

lemma parse_digits_all:
  "\<forall>c\<in>set ds. is_digit c \<Longrightarrow>
   parse_digits acc ds = Some (foldl (\<lambda>a c. 10 * a + digit_val c) acc ds)"
  by (induction acc ds rule: parse_digits.induct) auto

lemma nat_digits_nonempty: "nat_digits n \<noteq> []"
  by (subst nat_digits.simps) simp

lemma nat_digits_digits: "\<forall>c\<in>set (nat_digits n). is_digit c"
proof (induction n rule: nat_digits.induct)
  case (1 n)
  then show ?case
    by (subst nat_digits.simps) (auto simp: is_digit_digit_char)
qed

lemma nat_digits_value: "foldl (\<lambda>a c. 10 * a + digit_val c) 0 (nat_digits n) = n"
proof (induction n rule: nat_digits.induct)
  case (1 n)
  show ?case
  proof (cases "n < 10")
    case True
    then show ?thesis
      by (subst nat_digits.simps) (simp add: digit_val_digit_char)
  next
    case False
    with 1 show ?thesis
      by (subst nat_digits.simps) (simp add: digit_val_digit_char)
  qed
qed

lemma parse_nat_digits: "parse_nat (nat_digits n) = Some n"
proof -
  obtain c cs where eq: "nat_digits n = c # cs"
    using nat_digits_nonempty [of n] by (cases "nat_digits n") auto
  have dig: "\<forall>x\<in>set (c # cs). is_digit x"
    using nat_digits_digits [of n] eq by simp
  have "parse_nat (c # cs) = parse_digits (digit_val c) cs"
    using dig by (simp add: parse_nat_def)
  also have "\<dots> = Some (foldl (\<lambda>a c. 10 * a + digit_val c) (digit_val c) cs)"
    using dig by (simp add: parse_digits_all)
  also have "\<dots> = Some (foldl (\<lambda>a c. 10 * a + digit_val c) 0 (c # cs))"
    by simp
  also have "\<dots> = Some n"
    using nat_digits_value [of n] eq by simp
  finally show ?thesis using eq by simp
qed

text \<open>Stripping a text that neither starts nor ends with a space removes its padding.\<close>

lemma strip_padded:
  assumes "\<forall>c\<in>set l. P c" and "\<forall>c\<in>set r. P c"
    and "s \<noteq> []" and "\<not> P (hd s)" and "\<not> P (last s)"
  shows "rev (dropWhile P (rev (dropWhile P (l @ s @ r)))) = s"
proof -
  have front: "dropWhile P (l @ s @ r) = s @ r"
  proof -
    have "dropWhile P (l @ s @ r) = dropWhile P (s @ r)"
      using assms(1) by (intro dropWhile_append2) simp
    also have "\<dots> = s @ r"
      using assms(3,4) by (cases s) simp_all
    finally show ?thesis .
  qed
  have rear: "dropWhile P (rev r @ rev s) = rev s"
  proof -
    have "dropWhile P (rev r @ rev s) = dropWhile P (rev s)"
      using assms(2) by (intro dropWhile_append2) simp
    also have "\<dots> = rev s"
      using assms(3,5) by (cases "rev s") (simp_all add: last_rev [symmetric] hd_rev)
    finally show ?thesis .
  qed
  show ?thesis by (simp add: front rear)
qed

lemma is_digit_not_space: "is_digit c \<Longrightarrow> \<not> py_isspace c \<and> \<not> int_isspace c"
  by (auto simp: py_isspace_def int_isspace_def is_digit_def)

lemma is_digit_not_sign: "is_digit c \<Longrightarrow> c \<noteq> CHR ''-'' \<and> c \<noteq> CHR ''+''"
  by (auto simp: is_digit_def)

lemma minus_not_space: "\<not> py_isspace CHR ''-'' \<and> \<not> int_isspace CHR ''-''"
  by (simp add: py_isspace_def int_isspace_def)

lemma nat_digits_hd: "is_digit (hd (nat_digits n))"
  using nat_digits_digits [of n] nat_digits_nonempty [of n] by (cases "nat_digits n") auto

lemma nat_digits_last: "is_digit (last (nat_digits n))"
  using nat_digits_digits [of n] nat_digits_nonempty [of n] last_in_set by blast

lemma py_str_nonempty: "py_str i \<noteq> []"
  by (simp add: py_str_def nat_digits_nonempty)

lemma py_str_hd: "\<not> py_isspace (hd (py_str i)) \<and> \<not> int_isspace (hd (py_str i))"
proof (cases "i < 0")
  case True
  then show ?thesis by (simp add: py_str_def minus_not_space)
next
  case False
  then show ?thesis
    using nat_digits_hd [of "nat i"] by (simp add: py_str_def is_digit_not_space)
qed

lemma py_str_last: "\<not> py_isspace (last (py_str i)) \<and> \<not> int_isspace (last (py_str i))"
  using nat_digits_last [of "nat i"] nat_digits_last [of "nat (- i)"]
  by (auto simp: py_str_def is_digit_not_space nat_digits_nonempty)

lemma py_strip_padded_str:
  "\<forall>c\<in>set l. py_isspace c \<Longrightarrow> \<forall>c\<in>set r. py_isspace c \<Longrightarrow>
   py_strip (l @ py_str i @ r) = py_str i"
  unfolding py_strip_def
  by (rule strip_padded) (simp_all add: py_str_nonempty py_str_hd py_str_last)

lemma py_int_py_str: "py_int (py_str i) = Inr i"
proof -
  have strip: "rev (dropWhile int_isspace (rev (dropWhile int_isspace (py_str i)))) = py_str i"
    using strip_padded [of "[]" int_isspace "[]" "py_str i"]
    by (simp add: py_str_nonempty py_str_hd py_str_last)
  show ?thesis
  proof (cases "i < 0")
    case True
    then show ?thesis
      by (simp add: py_int_def strip) (simp add: py_str_def parse_nat_digits)
  next
    case False
    obtain c cs where eq: "nat_digits (nat i) = c # cs"
      using nat_digits_nonempty [of "nat i"] by (cases "nat_digits (nat i)") auto
    have "is_digit c" using nat_digits_hd [of "nat i"] eq by simp
    then have nosign: "c \<noteq> CHR ''-''" "c \<noteq> CHR ''+''"
      using is_digit_not_sign by blast+
    have "parse_nat (c # cs) = Some (nat i)"
      using parse_nat_digits [of "nat i"] eq by simp
    then show ?thesis
      using False nosign eq by (simp add: py_int_def strip) (simp add: py_str_def)
  qed
qed

lemma digit_char_values:
  "digit_char 0 = CHR ''0''" "digit_char 1 = CHR ''1''" "digit_char 2 = CHR ''2''"
  "digit_char 3 = CHR ''3''" "digit_char 4 = CHR ''4''" "digit_char 5 = CHR ''5''"
  "digit_char 6 = CHR ''6''" "digit_char 7 = CHR ''7''" "digit_char 8 = CHR ''8''"
  "digit_char 9 = CHR ''9''" "digit_char (Suc 0) = CHR ''1''"
  by code_simp+

lemma py_int_raises: "py_int s = Inl e \<Longrightarrow> e = ValueError"
  by (auto simp: py_int_def split: list.splits if_splits option.splits)

text \<open>The text of an integer is ASCII and has no carriage return: it is read as written.\<close>

lemma universal_newlines_id: "CHR 0x0D \<notin> set s \<Longrightarrow> universal_newlines s = s"
  by (induction s rule: universal_newlines.induct) auto

lemma is_digit_plain: "is_digit c \<Longrightarrow> is_ascii c \<and> c \<noteq> CHR 0x0D"
  by (auto simp: is_digit_def is_ascii_def)

lemma py_str_plain: "list_all is_ascii (py_str i) \<and> CHR 0x0D \<notin> set (py_str i)"
proof -
  have "\<forall>c\<in>set (nat_digits n). is_ascii c \<and> c \<noteq> CHR 0x0D" for n
    using nat_digits_digits [of n] is_digit_plain by blast
  then show ?thesis
    by (auto simp: py_str_def list_all_iff is_ascii_def)
qed

section \<open>Reading the PID file\<close>

lemma read_file_logging: "read_file p (logging l m w) = read_file p w"
  by (simp add: read_file_def logging_def decode_def split: option.splits)

lemma read_file_exists: "read_file p w = Inr c \<Longrightarrow> files w (abspath (cwd w) p) \<noteq> None"
  by (auto simp: read_file_def split: option.splits)

lemma read_file_missing:
  "files w (abspath (cwd w) p) = None \<Longrightarrow> read_file p w = Inl FileNotFoundError"
  by (simp add: read_file_def)

lemma read_file_raises:
  "read_file p w = Inl e \<Longrightarrow>
   (e = FileNotFoundError \<and> files w (abspath (cwd w) p) = None)
   \<or> (e = UnicodeDecodeError \<and> files w (abspath (cwd w) p) \<noteq> None)"
  by (auto simp: read_file_def split: option.splits)

lemma read_file_written:
  "files w (abspath (cwd w) p) = Some (py_str i) \<Longrightarrow> read_file p w = Inr (py_str i)"
  using py_str_plain [of i] by (simp add: read_file_def decode_def universal_newlines_id)

lemma get_pid_missing:
  "files w (abspath (cwd w) pid_file) = None \<Longrightarrow>
   get_pid pid_file w =
     (Inr (- 1),
      logging ERROR ''The process is not running or the PID file has been deleted'' w)"
  by (simp add: get_pid_def read_file_missing)

lemma get_pid_undecodable:
  "read_file pid_file w = Inl UnicodeDecodeError \<Longrightarrow>
   get_pid pid_file w = (Inl UnicodeDecodeError, w)"
  by (simp add: get_pid_def)

lemma get_pid_invalid:
  "read_file pid_file w = Inr c \<Longrightarrow> py_int (py_strip c) = Inl e \<Longrightarrow>
   get_pid pid_file w =
     (Inr (- 1),
      logging ERROR ''PID file is invalid'' (logging DEBUG (msg_read pid_file c) w))"
  using py_int_raises [of "py_strip c" e] by (simp add: get_pid_def)

lemma get_pid_parsed:
  "read_file pid_file w = Inr c \<Longrightarrow> py_int (py_strip c) = Inr n \<Longrightarrow>
   get_pid pid_file w = (Inr n, logging DEBUG (msg_read pid_file c) w)"
  by (simp add: get_pid_def)

lemma remove_existing:
  "files w (abspath (cwd w) p) \<noteq> None \<Longrightarrow>
   remove_and_return p w =
     (Inr 0, w\<lparr>files := (files w)(abspath (cwd w) p := None),
               events := events w @ [Remove (abspath (cwd w) p)]\<rparr>)"
  by (auto simp: remove_and_return_def os_remove_def)

text \<open>The example worlds, evaluated.\<close>

lemmas example_defs =
  example_world_def pid_path_def abspath_def read_file_def decode_def is_ascii_def

lemma example_no_file:
  "files (example_world [] ks fs) (abspath (cwd (example_world [] ks fs)) pid_path) = None"
  by (simp add: example_world_def)

lemma parse_4242: "py_int (py_strip ''4242'') = Inr 4242"
  by code_simp

section \<open>The termination loop\<close>

lemma kill_loop_delivered:
  "(\<forall>j<n. kill_reply w (kills w + j) pid SIGKILL = None) \<Longrightarrow>
   kill_loop n pid w =
     (None, w\<lparr>kills := kills w + n,
              events := events w @ concat (replicate n [Kill pid SIGKILL, Sleep 2])\<rparr>)"
proof (induction n arbitrary: w)
  case 0
  then show ?case by simp
next
  case (Suc n)
  let ?w1 = "time_sleep 2 (snd (os_kill pid SIGKILL w))"
  have first: "kill_reply w (kills w) pid SIGKILL = None"
    using Suc.prems by force
  have rest: "\<forall>j<n. kill_reply ?w1 (kills ?w1 + j) pid SIGKILL = None"
    using Suc.prems by (auto simp: os_kill_def time_sleep_def)
  have "kill_loop (Suc n) pid w = kill_loop n pid ?w1"
    using first by (simp add: os_kill_def)
  also have "\<dots> = (None, ?w1\<lparr>kills := kills ?w1 + n,
      events := events ?w1 @ concat (replicate n [Kill pid SIGKILL, Sleep 2])\<rparr>)"
    using Suc.IH [OF rest] .
  finally show ?case
    by (simp add: os_kill_def time_sleep_def)
qed

lemma kill_loop_raises:
  "k < n \<Longrightarrow> (\<forall>j<k. kill_reply w (kills w + j) pid SIGKILL = None) \<Longrightarrow>
   kill_reply w (kills w + k) pid SIGKILL = Some e \<Longrightarrow>
   kill_loop n pid w =
     (Some e, w\<lparr>kills := Suc (kills w + k),
                events := events w @ concat (replicate k [Kill pid SIGKILL, Sleep 2])
                            @ [Kill pid SIGKILL]\<rparr>)"
proof (induction n arbitrary: w k)
  case 0
  then show ?case by simp
next
  case (Suc n)
  note prems = Suc.prems
  show ?case
  proof (cases k)
    case 0
    then show ?thesis using prems by (simp add: os_kill_def)
  next
    case (Suc m)
    let ?w1 = "time_sleep 2 (snd (os_kill pid SIGKILL w))"
    have k: "k = Suc m" by fact
    have first: "kill_reply w (kills w) pid SIGKILL = None"
      using prems(2) k by force
    have lt: "m < n" using prems(1) k by simp
    have rest: "\<forall>j<m. kill_reply ?w1 (kills ?w1 + j) pid SIGKILL = None"
      using prems(2) k by (auto simp: os_kill_def time_sleep_def)
    have final: "kill_reply ?w1 (kills ?w1 + m) pid SIGKILL = Some e"
      using prems(3) k by (simp add: os_kill_def time_sleep_def)
    have "kill_loop (Suc n) pid w = kill_loop n pid ?w1"
      using first by (simp add: os_kill_def)
    also note Suc.IH [OF lt rest final]
    finally show ?thesis
      using k by (simp add: os_kill_def time_sleep_def)
  qed
qed

lemma count_rounds:
  "length (filter P (concat (replicate n xs))) = n * length (filter P xs)"
  by (induction n) simp_all

lemma stop_live:
  assumes "read_file pid_file w = Inr c"
    and "py_int (py_strip c) = Inr pid"
    and "pid \<noteq> - 1"
    and "kill_reply w (kills w) pid 0 = None"
  shows "stop pid_file w =
     (case kill_loop 10 pid
             (w\<lparr>kills := Suc (kills w),
                events := events w @ [Log DEBUG (msg_read pid_file c), Kill pid 0]\<rparr>) of
        (None, w3) \<Rightarrow> (Inr 1, logging ERROR (msg_unable pid) w3)
      | (Some e, w3) \<Rightarrow>
          if e = ProcessLookupError then
            remove_and_return pid_file (logging INFO (msg_terminated pid) w3)
          else (Inl e, w3))"
  using assms by (simp add: stop_def get_pid_parsed os_kill_def logging_def)

section \<open>The claims\<close>

text \<open>
  C1, as amended. When a file exists at the PID-file path and its content can be read as
  text, whatever the text is, \<open>start\<close> returns 0: it logs three lines and does nothing
  else. The result does not depend on the payload, the trace has no call of it, and the
  files are those it found.
\<close>

theorem start_existing_pid_file:
  assumes "read_file pid_file w = Inr c"
  shows "start pid_file app w =
      (Inr 0, w\<lparr>events := events w @
          [Log INFO ''Starting daemon'', Log DEBUG (msg_location pid_file),
           Log INFO (msg_exists c)]\<rparr>)
    \<and> files (snd (start pid_file app w)) = files w
    \<and> AppInvoked \<notin> set (new_events w (snd (start pid_file app w)))"
  using assms by (simp add: start_def read_file_logging Let_def new_events_def) (simp add: logging_def)

theorem start_existing_pid_file_witness:
  "read_file pid_path world_garbage = Inr ''not a pid''
   \<and> fst (start pid_path idle_app world_garbage) = Inr 0
   \<and> files (snd (start pid_path idle_app world_garbage)) pid_path = Some ''not a pid''"
proof -
  have h: "read_file pid_path world_garbage = Inr ''not a pid''"
    by (simp add: world_garbage_def example_defs)
  have "files world_garbage pid_path = Some ''not a pid''"
    by (simp add: world_garbage_def example_world_def)
  then show ?thesis
    using h start_existing_pid_file [OF h, of idle_app] by simp
qed

text \<open>
  C1, as stated, fails: a file whose bytes are no text exists at the path, and \<open>start\<close>
  does not return 0 but ends in the \<open>UnicodeDecodeError\<close> of the read, which it does not
  catch.
\<close>

theorem start_undecodable_counterexample:
  "files world_binary (abspath (cwd world_binary) pid_path) = Some [CHR 0xFF, CHR 0xFE]
   \<and> fst (start pid_path idle_app world_binary) = Inl UnicodeDecodeError
   \<and> fst (start pid_path idle_app world_binary) \<noteq> Inr 0"
proof -
  have f: "files world_binary (abspath (cwd world_binary) pid_path) = Some [CHR 0xFF, CHR 0xFE]"
    by (simp add: world_binary_def example_defs)
  have rd: "read_file pid_path world_binary = Inl UnicodeDecodeError"
    by (simp add: world_binary_def example_defs)
  show ?thesis
    using f by (simp add: start_def read_file_logging Let_def rd)
qed

text \<open>
  C2. \<open>stop\<close> on a live target (the probe signal is delivered). If one of the at most ten
  \<open>SIGKILL\<close> attempts, the one after \<open>k\<close> delivered ones, reports that there is no such
  process, the PID file is removed and \<open>stop\<close> returns 0. If all ten are delivered,
  \<open>stop\<close> returns 1 after exactly ten attempts, each followed by a sleep of 2, and the
  files are unchanged.
\<close>

theorem stop_termination_loop:
  assumes "read_file pid_file w = Inr c"
    and "py_int (py_strip c) = Inr pid"
    and "pid \<noteq> - 1"
    and "kill_reply w (kills w) pid 0 = None"
  shows "(\<forall>k<10.
            (\<forall>j<k. kill_reply w (Suc (kills w) + j) pid SIGKILL = None) \<and>
            kill_reply w (Suc (kills w) + k) pid SIGKILL = Some ProcessLookupError \<longrightarrow>
            fst (stop pid_file w) = Inr 0 \<and>
            files (snd (stop pid_file w)) = (files w)(abspath (cwd w) pid_file := None) \<and>
            new_events w (snd (stop pid_file w)) =
              [Log DEBUG (msg_read pid_file c), Kill pid 0]
              @ concat (replicate k [Kill pid SIGKILL, Sleep 2])
              @ [Kill pid SIGKILL, Log INFO (msg_terminated pid),
                 Remove (abspath (cwd w) pid_file)])
    \<and> ((\<forall>j<10. kill_reply w (Suc (kills w) + j) pid SIGKILL = None) \<longrightarrow>
            fst (stop pid_file w) = Inr 1 \<and>
            files (snd (stop pid_file w)) = files w \<and>
            new_events w (snd (stop pid_file w)) =
              [Log DEBUG (msg_read pid_file c), Kill pid 0]
              @ concat (replicate 10 [Kill pid SIGKILL, Sleep 2])
              @ [Log ERROR (msg_unable pid)])"
proof -
  let ?w2 = "w\<lparr>kills := Suc (kills w),
                events := events w @ [Log DEBUG (msg_read pid_file c), Kill pid 0]\<rparr>"
  note unfold = stop_live [OF assms]
  have dies: "fst (stop pid_file w) = Inr 0 \<and>
            files (snd (stop pid_file w)) = (files w)(abspath (cwd w) pid_file := None) \<and>
            new_events w (snd (stop pid_file w)) =
              [Log DEBUG (msg_read pid_file c), Kill pid 0]
              @ concat (replicate k [Kill pid SIGKILL, Sleep 2])
              @ [Kill pid SIGKILL, Log INFO (msg_terminated pid),
                 Remove (abspath (cwd w) pid_file)]"
    if "k < 10" and "\<forall>j<k. kill_reply w (Suc (kills w) + j) pid SIGKILL = None"
      and "kill_reply w (Suc (kills w) + k) pid SIGKILL = Some ProcessLookupError" for k
  proof -
    have "kill_loop 10 pid ?w2 =
      (Some ProcessLookupError, ?w2\<lparr>kills := Suc (kills ?w2 + k),
                events := events ?w2 @ concat (replicate k [Kill pid SIGKILL, Sleep 2])
                            @ [Kill pid SIGKILL]\<rparr>)"
      using that by (intro kill_loop_raises) simp_all
    then show ?thesis
      using read_file_exists [OF assms(1)]
      by (simp add: unfold logging_def remove_existing new_events_def)
  qed
  have survives: "fst (stop pid_file w) = Inr 1 \<and>
            files (snd (stop pid_file w)) = files w \<and>
            new_events w (snd (stop pid_file w)) =
              [Log DEBUG (msg_read pid_file c), Kill pid 0]
              @ concat (replicate 10 [Kill pid SIGKILL, Sleep 2])
              @ [Log ERROR (msg_unable pid)]"
    if "\<forall>j<10. kill_reply w (Suc (kills w) + j) pid SIGKILL = None"
  proof -
    have "kill_loop 10 pid ?w2 =
      (None, ?w2\<lparr>kills := kills ?w2 + 10,
              events := events ?w2 @ concat (replicate 10 [Kill pid SIGKILL, Sleep 2])\<rparr>)"
      using that by (intro kill_loop_delivered) simp
    then show ?thesis
      by (simp add: unfold logging_def new_events_def)
  qed
  show ?thesis using dies survives by blast
qed

theorem stop_termination_loop_witness:
  "(fst (stop pid_path world_dying) = Inr 0
      \<and> files (snd (stop pid_path world_dying)) pid_path = None
      \<and> length (filter (\<lambda>e. e = Kill 4242 SIGKILL)
           (new_events world_dying (snd (stop pid_path world_dying)))) = 3)
   \<and> (fst (stop pid_path world_unkillable) = Inr 1
      \<and> files (snd (stop pid_path world_unkillable)) pid_path = Some ''4242''
      \<and> length (filter (\<lambda>e. e = Kill 4242 SIGKILL)
           (new_events world_unkillable (snd (stop pid_path world_unkillable)))) = 10)"
proof -
  have d1: "read_file pid_path world_dying = Inr ''4242''"
    by (simp add: world_dying_def example_defs)
  have d4: "kill_reply world_dying (kills world_dying) 4242 0 = None"
    by (simp add: world_dying_def example_world_def)
  have d5: "(2::nat) < 10
      \<and> (\<forall>j<2. kill_reply world_dying (Suc (kills world_dying) + j) 4242 SIGKILL = None)
      \<and> kill_reply world_dying (Suc (kills world_dying) + 2) 4242 SIGKILL
          = Some ProcessLookupError"
    by (simp add: world_dying_def example_world_def)
  have u1: "read_file pid_path world_unkillable = Inr ''4242''"
    by (simp add: world_unkillable_def example_defs)
  have u4: "kill_reply world_unkillable (kills world_unkillable) 4242 0 = None"
    by (simp add: world_unkillable_def example_world_def)
  have u5: "\<forall>j<10. kill_reply world_unkillable (Suc (kills world_unkillable) + j) 4242 SIGKILL
      = None"
    by (simp add: world_unkillable_def example_world_def)
  have p: "abspath (cwd world_dying) pid_path = pid_path"
    "abspath (cwd world_unkillable) pid_path = pid_path"
    "files world_unkillable pid_path = Some ''4242''"
    by (simp_all add: abspath_def pid_path_def world_unkillable_def example_world_def)
  have nm: "(4242::int) \<noteq> - 1" by simp
  note dies = stop_termination_loop [OF d1 parse_4242 nm d4, THEN conjunct1, rule_format, of 2]
  note survives = stop_termination_loop [OF u1 parse_4242 nm u4, THEN conjunct2, rule_format]
  have dying: "fst (stop pid_path world_dying) = Inr 0
      \<and> files (snd (stop pid_path world_dying)) pid_path = None
      \<and> length (filter (\<lambda>e. e = Kill 4242 SIGKILL)
           (new_events world_dying (snd (stop pid_path world_dying)))) = 3"
    using dies d5 by (simp add: p SIGKILL_def count_rounds)
  have unkillable: "fst (stop pid_path world_unkillable) = Inr 1
      \<and> files (snd (stop pid_path world_unkillable)) pid_path = Some ''4242''
      \<and> length (filter (\<lambda>e. e = Kill 4242 SIGKILL)
           (new_events world_unkillable (snd (stop pid_path world_unkillable)))) = 10"
    using survives u5 by (simp add: p SIGKILL_def count_rounds)
  show ?thesis using dying unkillable by simp
qed

text \<open>
  C3. When the PID file holds a process identifier and the probe signal reports that
  there is no such process, \<open>stop\<close> logs the warning that the process does not exist,
  removes the PID file and returns 0.
\<close>

theorem stop_stale:
  assumes "read_file pid_file w = Inr c"
    and "py_int (py_strip c) = Inr pid"
    and "pid \<noteq> - 1"
    and "kill_reply w (kills w) pid 0 = Some ProcessLookupError"
  shows "fst (stop pid_file w) = Inr 0
    \<and> files (snd (stop pid_file w)) = (files w)(abspath (cwd w) pid_file := None)
    \<and> new_events w (snd (stop pid_file w)) =
        [Log DEBUG (msg_read pid_file c), Kill pid 0, Log WARNING (msg_stale pid),
         Remove (abspath (cwd w) pid_file)]"
  using assms read_file_exists [OF assms(1)]
  by (simp add: stop_def get_pid_parsed os_kill_def logging_def remove_existing new_events_def)

theorem stop_stale_witness:
  "files world_stale (abspath (cwd world_stale) pid_path)
     = Some ('' 4242'' @ [CHR 0x0D, CHR 0x0A])
   \<and> read_file pid_path world_stale = Inr ('' 4242'' @ [CHR 0x0A])
   \<and> py_int (py_strip ('' 4242'' @ [CHR 0x0A])) = Inr 4242
   \<and> kill_reply world_stale (kills world_stale) 4242 0 = Some ProcessLookupError
   \<and> fst (stop pid_path world_stale) = Inr 0
   \<and> files (snd (stop pid_path world_stale)) pid_path = None
   \<and> Log WARNING (msg_stale 4242)
       \<in> set (new_events world_stale (snd (stop pid_path world_stale)))"
proof -
  have h0: "files world_stale (abspath (cwd world_stale) pid_path)
      = Some ('' 4242'' @ [CHR 0x0D, CHR 0x0A])"
    by (simp add: world_stale_def example_defs)
  have h1: "read_file pid_path world_stale = Inr ('' 4242'' @ [CHR 0x0A])"
    by (simp add: world_stale_def example_defs)
  have h2: "py_int (py_strip ('' 4242'' @ [CHR 0x0A])) = Inr 4242"
    by code_simp
  have h4: "kill_reply world_stale (kills world_stale) 4242 0 = Some ProcessLookupError"
    by (simp add: world_stale_def example_world_def)
  have p: "abspath (cwd world_stale) pid_path = pid_path"
    by (simp add: abspath_def pid_path_def)
  show ?thesis
    using h0 h1 h2 h4 stop_stale [OF h1 h2 _ h4] by (simp add: p)
qed

text \<open>
  C4. When there is no PID file, or its trimmed content is not an integer, \<open>stop\<close>
  returns 1; the files are unchanged and all it has done is log.
\<close>

theorem stop_no_pid:
  assumes "files w (abspath (cwd w) pid_file) = None
     \<or> (\<exists>c. read_file pid_file w = Inr c \<and> py_int (py_strip c) = Inl ValueError)"
  shows "fst (stop pid_file w) = Inr 1
    \<and> files (snd (stop pid_file w)) = files w
    \<and> (\<forall>e \<in> set (new_events w (snd (stop pid_file w))). \<exists>l m. e = Log l m)"
  using assms
  by (auto simp: stop_def get_pid_missing get_pid_invalid logging_def new_events_def)

theorem stop_no_pid_witness:
  "(files world_fresh (abspath (cwd world_fresh) pid_path) = None
      \<and> fst (stop pid_path world_fresh) = Inr 1
      \<and> files (snd (stop pid_path world_fresh)) = files world_fresh)
   \<and> (read_file pid_path world_garbage = Inr ''not a pid''
      \<and> py_int (py_strip ''not a pid'') = Inl ValueError
      \<and> fst (stop pid_path world_garbage) = Inr 1
      \<and> files (snd (stop pid_path world_garbage)) = files world_garbage)"
proof -
  have f: "files world_fresh (abspath (cwd world_fresh) pid_path) = None"
    unfolding world_fresh_def by (rule example_no_file)
  have g1: "read_file pid_path world_garbage = Inr ''not a pid''"
    by (simp add: world_garbage_def example_defs)
  have g2: "py_int (py_strip ''not a pid'') = Inl ValueError"
    by code_simp
  show ?thesis
    using f g1 g2 stop_no_pid [of world_fresh pid_path] stop_no_pid [of world_garbage pid_path]
    by simp
qed

text \<open>
  C8. When the probe signal fails with a permission error, \<open>stop\<close> does not take the
  stale-record branch: it logs no warning, removes nothing and does not return 0. The
  \<open>PermissionError\<close> leaves \<open>stop\<close> as an exception of its own.
\<close>

theorem stop_probe_denied:
  assumes "read_file pid_file w = Inr c"
    and "py_int (py_strip c) = Inr pid"
    and "pid \<noteq> - 1"
    and "kill_reply w (kills w) pid 0 = Some PermissionError"
  shows "fst (stop pid_file w) = Inl PermissionError
    \<and> files (snd (stop pid_file w)) = files w
    \<and> new_events w (snd (stop pid_file w)) = [Log DEBUG (msg_read pid_file c), Kill pid 0]"
  using assms
  by (simp add: stop_def get_pid_parsed os_kill_def logging_def new_events_def)

theorem stop_probe_denied_witness:
  "read_file pid_path world_denied = Inr ''4242''
   \<and> kill_reply world_denied (kills world_denied) 4242 0 = Some PermissionError
   \<and> fst (stop pid_path world_denied) = Inl PermissionError
   \<and> fst (stop pid_path world_denied) \<noteq> Inr 0
   \<and> files (snd (stop pid_path world_denied)) pid_path = Some ''4242''"
proof -
  have h1: "read_file pid_path world_denied = Inr ''4242''"
    by (simp add: world_denied_def example_defs)
  have h4: "kill_reply world_denied (kills world_denied) 4242 0 = Some PermissionError"
    by (simp add: world_denied_def example_world_def)
  have p: "files world_denied pid_path = Some ''4242''"
    by (simp add: pid_path_def world_denied_def example_world_def)
  show ?thesis
    using h1 h4 stop_probe_denied [OF h1 parse_4242 _ h4] by (simp add: p)
qed

text \<open>
  C9. Round trip of the PID file: \<open>get_pid\<close> after \<open>create_pid_file\<close> yields the integer
  that was written, and it yields the same integer from any file that is read as its
  decimal text with whitespace around it. This holds for every integer, so for every
  positive one.
\<close>

theorem pid_file_round_trip:
  assumes "\<forall>c\<in>set l. py_isspace c" and "\<forall>c\<in>set r. py_isspace c"
  shows "fst (get_pid pid_file (create_pid_file pid_file pid w)) = Inr pid
    \<and> (read_file pid_file w' = Inr (l @ py_str pid @ r) \<longrightarrow>
         fst (get_pid pid_file w') = Inr pid)"
proof -
  have parse: "py_int (py_strip (l @ py_str pid @ r)) = Inr pid"
    using assms by (simp add: py_strip_padded_str py_int_py_str)
  have parse0: "py_int (py_strip (py_str pid)) = Inr pid"
    using py_strip_padded_str [of "[]" "[]" pid] by (simp add: py_int_py_str)
  have "files (create_pid_file pid_file pid w)
      (abspath (cwd (create_pid_file pid_file pid w)) pid_file) = Some (py_str pid)"
    by (simp add: create_pid_file_def write_file_def logging_def open_w_def)
  then have written: "read_file pid_file (create_pid_file pid_file pid w) = Inr (py_str pid)"
    by (rule read_file_written)
  show ?thesis
    using get_pid_parsed [OF written parse0] get_pid_parsed [OF _ parse]
    by simp
qed

theorem pid_file_round_trip_witness:
  "py_isspace CHR '' '' \<and> py_isspace (CHR 0x09) \<and> py_isspace (CHR 0x0A)
   \<and> py_str 12345 = ''12345''
   \<and> fst (get_pid pid_path (create_pid_file pid_path 12345 world_fresh)) = Inr 12345
   \<and> files world_padded pid_path
       = Some ([CHR '' '', CHR 0x09] @ ''12345'' @ [CHR 0x0D, CHR 0x0A])
   \<and> read_file pid_path world_padded = Inr ([CHR '' '', CHR 0x09] @ ''12345'' @ [CHR 0x0A])
   \<and> fst (get_pid pid_path world_padded) = Inr 12345"
proof -
  have l: "\<forall>c\<in>set [CHR '' '', CHR 0x09]. py_isspace c"
    by (simp add: py_isspace_def)
  have r: "\<forall>c\<in>set [CHR 0x0A]. py_isspace c"
    by (simp add: py_isspace_def)
  have s: "py_str 12345 = ''12345''"
    by (simp add: py_str_def nat_digits.simps digit_char_values)
  have f: "files world_padded pid_path
       = Some ([CHR '' '', CHR 0x09] @ ''12345'' @ [CHR 0x0D, CHR 0x0A])"
    by (simp add: world_padded_def example_world_def)
  have rd: "read_file pid_path world_padded
      = Inr ([CHR '' '', CHR 0x09] @ ''12345'' @ [CHR 0x0A])"
    by (simp add: world_padded_def example_defs)
  show ?thesis
    using l r s f rd
      pid_file_round_trip [OF l r, of pid_path 12345 world_fresh world_padded]
    by simp
qed

section \<open>The processes of a start\<close>


text \<open>The three pending steps of the first child are the three calls of \<open>create_pid_file\<close>.\<close>

lemma first_child_pending_is_create_pid_file:
  assumes "cwd w = ''/''"
  shows "take_steps 3 (w\<lparr>pending := first_child_pending pid_file pid\<rparr>)
     = (create_pid_file pid_file pid w)\<lparr>pending := []\<rparr>"
  using assms
  by (simp add: numeral_3_eq_3 first_child_pending_def create_pid_file_def open_w_def
      write_file_def logging_def)






lemma fork_as_grandchild:
  assumes "fork_reply w (forks w) = 0" and "fork_reply w (Suc (forks w)) = 0"
  shows "fork pid_file w =
     (Inr 0,
      w\<lparr>cwd := ''/'', forks := Suc (Suc (forks w)),
        events := events w @
          [Forked, Chdir ''/'', Setsid, Umask 0, Forked,
           Log DEBUG ''Redirecting stdout and stderr to /dev/null'', Redirect]\<rparr>)"
  using assms
  by (simp add: fork_def os_fork_def os_chdir_def os_setsid_def os_umask_def logging_def
      redirect_output_def)


lemma start_in_grandchild:
  assumes "files w (abspath (cwd w) pid_file) = None"
    and "fork_reply w (forks w) = 0"
    and "fork_reply w (Suc (forks w)) = 0"
  shows "start pid_file app w =
     (case run_app app
             (others (logging DEBUG ''Running app function...''
                (others (beside_first_child pid_file
                   (w\<lparr>cwd := ''/'', forks := Suc (Suc (forks w)),
                      events := events w @
                        [Log INFO ''Starting daemon'', Log DEBUG (msg_location pid_file),
                         Log DEBUG ''Entering fork function...'',
                         Forked, Chdir ''/'', Setsid, Umask 0, Forked,
                         Log DEBUG ''Redirecting stdout and stderr to /dev/null'',
                         Redirect]\<rparr>))))) of
        (Some e', w3) \<Rightarrow> (Inl e', w3)
      | (None, w3) \<Rightarrow>
          remove_and_return pid_file
            (others (logging INFO ''Function completed. Deleting pidfile'' (others w3))))"
proof -
  let ?w1 = "logging DEBUG ''Entering fork function...''
      (logging DEBUG (msg_location pid_file) (logging INFO ''Starting daemon'' w))"
  have missing: "read_file pid_file
      (logging DEBUG (msg_location pid_file) (logging INFO ''Starting daemon'' w))
      = Inl FileNotFoundError"
    using assms(1) by (simp add: read_file_logging read_file_missing)
  have f1: "fork_reply ?w1 (forks ?w1) = 0"
    using assms(2) by (simp add: logging_def)
  have f2: "fork_reply ?w1 (Suc (forks ?w1)) = 0"
    using assms(3) by (simp add: logging_def)
  have w2: "?w1\<lparr>cwd := ''/'', forks := Suc (Suc (forks ?w1)),
        events := events ?w1 @
          [Forked, Chdir ''/'', Setsid, Umask 0, Forked,
           Log DEBUG ''Redirecting stdout and stderr to /dev/null'', Redirect]\<rparr>
      = w\<lparr>cwd := ''/'', forks := Suc (Suc (forks w)),
          events := events w @
            [Log INFO ''Starting daemon'', Log DEBUG (msg_location pid_file),
             Log DEBUG ''Entering fork function...'',
             Forked, Chdir ''/'', Setsid, Umask 0, Forked,
             Log DEBUG ''Redirecting stdout and stderr to /dev/null'', Redirect]\<rparr>"
    by (simp add: logging_def)
  show ?thesis
    by (simp add: start_def Let_def missing fork_as_grandchild [OF f1 f2] w2)
qed



text \<open>Runs of \<open>start\<close> in the example worlds, evaluated.\<close>

lemma take_steps_numeral:
  "take_steps (numeral k) w =
     (case pending w of
        [] \<Rightarrow> w
      | a # as \<Rightarrow> take_steps (pred_numeral k) (perform a (w\<lparr>pending := as\<rparr>)))"
  by (simp add: numeral_eq_Suc)

lemmas step_defs =
  logging_def beside_first_child_def first_child_pending_def others_def take_steps_numeral
  run_app_def idle_app_def remove_and_return_def os_remove_def

lemma grandchild_worlds:
  "files (world_grandchild\<lparr>schedule := s\<rparr>)
     (abspath (cwd (world_grandchild\<lparr>schedule := s\<rparr>)) pid_path) = None"
  "fork_reply (world_grandchild\<lparr>schedule := s\<rparr>) (forks (world_grandchild\<lparr>schedule := s\<rparr>)) = 0"
  "fork_reply (world_grandchild\<lparr>schedule := s\<rparr>)
     (Suc (forks (world_grandchild\<lparr>schedule := s\<rparr>))) = 0"
  by (simp_all add: world_grandchild_def example_world_def)

lemma pid_path_absolute: "abspath ''/'' pid_path = pid_path"
  by (simp add: abspath_def pid_path_def)

text \<open>
  The daemon as it usually runs: the first child has written the PID file when the
  grandchild calls the payload; when the payload returns the file is removed and \<open>start\<close>
  returns 0.
\<close>

lemma daemon_run:
  "fst (start pid_path idle_app world_daemon) = Inr 0
   \<and> written_before_payload pid_path (events (snd (start pid_path idle_app world_daemon)))
   \<and> files (snd (start pid_path idle_app world_daemon)) pid_path = None"
proof -
  have run: "start pid_path idle_app world_daemon =
      (Inr 0,
       \<lparr>files = Map.empty, cwd = ''/'', codec = (\<lambda>b. None),
        kill_reply = (\<lambda>n pid sig. None), kills = 0,
        fork_reply = (\<lambda>n. 0), forked = (\<lambda>n. 4242 + n), forks = 2,
        pending = [], schedule = [],
        events =
          [Log INFO ''Starting daemon'', Log DEBUG (msg_location pid_path),
           Log DEBUG ''Entering fork function...'', Forked, Chdir ''/'', Setsid, Umask 0,
           Forked, Log DEBUG ''Redirecting stdout and stderr to /dev/null'', Redirect,
           Truncate pid_path, Log DEBUG (msg_writing 4243 pid_path),
           Write pid_path (py_str 4243),
           Log DEBUG ''Running app function...'', AppInvoked,
           Log INFO ''Function completed. Deleting pidfile'', Remove pid_path]\<rparr>)"
    unfolding world_daemon_def
    by (simp add: start_in_grandchild [OF grandchild_worlds])
      (simp add: step_defs pid_path_absolute world_grandchild_def example_world_def)
  show ?thesis
    by (simp add: run written_before_payload_def is_write_to_def)
qed


text \<open>
  C6, as amended. \<open>fork\<close> returns only in the process to which both \<open>os.fork()\<close> calls
  returned 0, the grandchild; in the original process and in the first child it ends in
  \<open>SystemExit\<close>. The value it returns is what the second \<open>os.fork()\<close> returned there, 0.
  The grandchild's identifier is the value returned to the first child, which writes it
  to the PID file before it exits.
\<close>

theorem fork_returns_in_grandchild:
  "fst (fork pid_file w) =
     (if fork_reply w (forks w) = 0 \<and> fork_reply w (Suc (forks w)) = 0 then Inr 0
      else Inl SystemExit)
   \<and> (fork_reply w (forks w) = 0 \<and> 0 < fork_reply w (Suc (forks w)) \<longrightarrow>
        files (snd (fork pid_file w)) (abspath ''/'' pid_file)
          = Some (py_str (int (fork_reply w (Suc (forks w))))))"
  by (simp add: fork_def os_fork_def os_chdir_def os_setsid_def os_umask_def sys_exit_def
      create_pid_file_def open_w_def logging_def write_file_def redirect_output_def)

theorem fork_returns_in_grandchild_witness:
  "fst (fork pid_path world_parent) = Inl SystemExit
   \<and> fst (fork pid_path world_first_child) = Inl SystemExit
   \<and> files (snd (fork pid_path world_first_child)) pid_path = Some (py_str 4243)
   \<and> fst (fork pid_path world_grandchild) = Inr 0"
proof -
  have p: "abspath ''/'' pid_path = pid_path"
    by (simp add: abspath_def pid_path_def)
  show ?thesis
    using fork_returns_in_grandchild [of pid_path world_parent]
      fork_returns_in_grandchild [of pid_path world_first_child]
      fork_returns_in_grandchild [of pid_path world_grandchild]
    by (simp add: p world_parent_def world_first_child_def world_grandchild_def
        example_world_def)
qed

text \<open>
  C6, as stated, fails: the second \<open>os.fork()\<close> returns the grandchild's identifier, 4243,
  to the first child, and in the grandchild \<open>fork\<close> returns 0.
\<close>

theorem fork_return_value_counterexample:
  "fst (os_fork (os_umask 0 (os_setsid (os_chdir ''/'' (snd (os_fork world_first_child))))))
     = 4243
   \<and> fst (fork pid_path world_grandchild) = Inr 0
   \<and> fst (fork pid_path world_grandchild) \<noteq> Inr 4243"
  by (simp add: fork_def os_fork_def os_chdir_def os_setsid_def os_umask_def
      world_first_child_def world_grandchild_def example_world_def)

text \<open>
  C7, as amended. \<open>get_pid\<close> reports that the file was not found exactly when there is
  no file, and that it is invalid exactly when the file can be read and \<open>int()\<close> rejects
  its trimmed content. Every integer that \<open>int()\<close> accepts is returned as it is, whatever
  its sign.
\<close>

theorem get_pid_outcomes:
  "(reports_not_found pid_file w \<longleftrightarrow> files w (abspath (cwd w) pid_file) = None)
   \<and> (reports_invalid pid_file w \<longleftrightarrow>
        (\<exists>c. read_file pid_file w = Inr c \<and> py_int (py_strip c) = Inl ValueError))
   \<and> (\<forall>c n. read_file pid_file w = Inr c \<and> py_int (py_strip c) = Inr n \<longrightarrow>
        get_pid pid_file w = (Inr n, logging DEBUG (msg_read pid_file c) w))"
proof (cases "read_file pid_file w")
  case (Inl e)
  show ?thesis
    using read_file_raises [OF Inl]
  proof
    assume "e = FileNotFoundError \<and> files w (abspath (cwd w) pid_file) = None"
    then show ?thesis
      using Inl
      by (simp add: reports_not_found_def reports_invalid_def get_pid_missing logging_def
          new_events_def)
  next
    assume "e = UnicodeDecodeError \<and> files w (abspath (cwd w) pid_file) \<noteq> None"
    then show ?thesis
      using Inl
      by (simp add: reports_not_found_def reports_invalid_def get_pid_undecodable)
  qed
next
  case (Inr c)
  note exists = read_file_exists [OF Inr]
  show ?thesis
  proof (cases "py_int (py_strip c)")
    case (Inl e)
    then have e: "py_int (py_strip c) = Inl ValueError"
      using py_int_raises by blast
    show ?thesis
      using Inr e exists
      by (simp add: reports_not_found_def reports_invalid_def get_pid_invalid logging_def
          new_events_def)
  next
    case (Inr n)
    show ?thesis
      using \<open>read_file pid_file w = Inr c\<close> Inr exists
      by (simp add: reports_not_found_def reports_invalid_def get_pid_parsed logging_def
          new_events_def msg_read_def)
  qed
qed

theorem get_pid_outcomes_witness:
  "read_file pid_path world_negative = Inr ''-7''
   \<and> py_int (py_strip ''-7'') = Inr (- 7)
   \<and> fst (get_pid pid_path world_negative) = Inr (- 7)
   \<and> \<not> reports_invalid pid_path world_negative
   \<and> \<not> reports_not_found pid_path world_negative
   \<and> reports_not_found pid_path world_fresh
   \<and> reports_invalid pid_path world_garbage"
proof -
  have n1: "read_file pid_path world_negative = Inr ''-7''"
    by (simp add: world_negative_def example_defs)
  have n0: "files world_negative (abspath (cwd world_negative) pid_path) \<noteq> None"
    by (rule read_file_exists [OF n1])
  have n2: "py_int (py_strip ''-7'') = Inr (- 7)"
    by code_simp
  have f: "files world_fresh (abspath (cwd world_fresh) pid_path) = None"
    unfolding world_fresh_def by (rule example_no_file)
  have g1: "read_file pid_path world_garbage = Inr ''not a pid''"
    by (simp add: world_garbage_def example_defs)
  have g2: "py_int (py_strip ''not a pid'') = Inl ValueError"
    by code_simp
  show ?thesis
    using n0 n1 n2 f g1 g2 get_pid_outcomes [of pid_path world_negative]
      get_pid_outcomes [of pid_path world_fresh] get_pid_outcomes [of pid_path world_garbage]
    by simp
qed

text \<open>
  C7, as stated, fails: a PID file that holds \<open>0\<close> does not parse as a positive integer,
  yet \<open>get_pid\<close> does not report it invalid: it returns 0.
\<close>

theorem get_pid_zero_counterexample:
  "read_file pid_path world_zero = Inr ''0''
   \<and> \<not> parses_positive ''0''
   \<and> \<not> reports_invalid pid_path world_zero
   \<and> fst (get_pid pid_path world_zero) = Inr 0"
proof -
  have z1: "read_file pid_path world_zero = Inr ''0''"
    by (simp add: world_zero_def example_defs)
  have z2: "py_int (py_strip ''0'') = Inr 0"
    by code_simp
  show ?thesis
    using z1 z2 get_pid_parsed [OF z1 z2]
    by (simp add: parses_positive_def reports_invalid_def)
qed

text \<open>
  C10. A PID file whose trimmed content is not an integer, or is \<open>-1\<close>, stays: \<open>start\<close>
  returns 0 without calling the payload, \<open>stop\<close> returns 1, and after either call the
  files are unchanged and the file reads as it did, so the same holds for every later
  call.
\<close>

theorem unusable_pid_file_stays:
  assumes "read_file pid_file w = Inr c"
    and "py_int (py_strip c) = Inl ValueError \<or> py_int (py_strip c) = Inr (- 1)"
  shows "fst (start pid_file app w) = Inr 0
    \<and> AppInvoked \<notin> set (new_events w (snd (start pid_file app w)))
    \<and> files (snd (start pid_file app w)) = files w
    \<and> read_file pid_file (snd (start pid_file app w)) = Inr c
    \<and> fst (stop pid_file w) = Inr 1
    \<and> files (snd (stop pid_file w)) = files w
    \<and> read_file pid_file (snd (stop pid_file w)) = Inr c"
proof -
  have st: "start pid_file app w =
      (Inr 0, logging INFO (msg_exists c)
         (logging DEBUG (msg_location pid_file) (logging INFO ''Starting daemon'' w)))"
    using assms(1) by (simp add: start_def read_file_logging Let_def)
  have sp: "stop pid_file w = (Inr 1,
        logging ERROR ''PID file is invalid'' (logging DEBUG (msg_read pid_file c) w))
      \<or> stop pid_file w = (Inr 1, logging DEBUG (msg_read pid_file c) w)"
    using assms(2)
  proof
    assume "py_int (py_strip c) = Inl ValueError"
    then show ?thesis
      using assms(1) by (simp add: stop_def get_pid_invalid)
  next
    assume "py_int (py_strip c) = Inr (- 1)"
    then show ?thesis
      using assms(1) by (simp add: stop_def get_pid_parsed)
  qed
  have stop_part: "fst (stop pid_file w) = Inr 1
      \<and> files (snd (stop pid_file w)) = files w
      \<and> read_file pid_file (snd (stop pid_file w)) = Inr c"
    using sp assms(1) by (auto simp: read_file_logging) (simp_all add: logging_def)
  have start_part: "fst (start pid_file app w) = Inr 0
      \<and> AppInvoked \<notin> set (new_events w (snd (start pid_file app w)))
      \<and> files (snd (start pid_file app w)) = files w
      \<and> read_file pid_file (snd (start pid_file app w)) = Inr c"
    using assms(1) by (simp add: st read_file_logging) (simp add: logging_def new_events_def)
  show ?thesis
    using start_part stop_part by simp
qed

theorem unusable_pid_file_stays_witness:
  "(py_int (py_strip ''not a pid'') = Inl ValueError
      \<and> fst (start pid_path idle_app world_garbage) = Inr 0
      \<and> fst (stop pid_path world_garbage) = Inr 1
      \<and> files (snd (stop pid_path world_garbage)) pid_path = Some ''not a pid'')
   \<and> (py_int (py_strip ''-1'') = Inr (- 1)
      \<and> fst (start pid_path idle_app world_minus_one) = Inr 0
      \<and> fst (stop pid_path world_minus_one) = Inr 1
      \<and> files (snd (stop pid_path world_minus_one)) pid_path = Some ''-1'')"
proof -
  have g1: "read_file pid_path world_garbage = Inr ''not a pid''"
    by (simp add: world_garbage_def example_defs)
  have g2: "py_int (py_strip ''not a pid'') = Inl ValueError"
    by code_simp
  have m1: "read_file pid_path world_minus_one = Inr ''-1''"
    by (simp add: world_minus_one_def example_defs)
  have m2: "py_int (py_strip ''-1'') = Inr (- 1)"
    by code_simp
  have p: "files world_garbage pid_path = Some ''not a pid''"
    "files world_minus_one pid_path = Some ''-1''"
    by (simp_all add: world_garbage_def world_minus_one_def example_world_def)
  show ?thesis
    using g2 m2 unusable_pid_file_stays [OF g1, of idle_app]
      unusable_pid_file_stays [OF m1, of idle_app]
    by (simp add: p)
qed

end
